theory Spec2Isabelle
  imports Main "HOL-Library.Sublist"
begin

section \<open>Data model (types.ts and the plugin-types package)\<close>

text \<open>
  A configuration value has the TypeScript type \<open>unknown\<close>, and so has, once the
  types are erased, every property of a parsed JSON body. The handlers compare such a
  value with \<open>null\<close>, \<open>undefined\<close> and the empty string, ask whether
  \<open>typeof value === "string"\<close>, test its truthiness and put it into a template
  literal. \<open>JNum\<close> stands for a number, of which only the integers are told apart (a
  fraction is truthy like any non-zero integer); \<open>JObj\<close> is an object or array, by
  reference.
\<close>

datatype jsval = JUndefined | JNull | JBool bool | JNum int | JStr string | JObj nat

datatype field_type = Text | Password | Select | Checkbox | Number | Textarea

text \<open>
  Modelled from the spec: \<open>ConfigField\<close> and \<open>ConfigSchema\<close> are declared in the
  package \<open>@wopr-network/plugin-types\<close>; their fields are the ones listed in section 3
  of the specification and in the input schema of \<open>setup.ask\<close>. An optional property
  is an \<open>option\<close>, \<open>None\<close> standing for \<open>undefined\<close>.
\<close>

record ConfigField =
  name :: string
  ftype :: field_type
  label :: string
  description :: "string option"
  placeholder :: "string option"
  required :: "bool option"
  pattern :: "string option"
  patternError :: "string option"
  options :: "(string \<times> string) list option"

record ConfigSchema =
  title :: string
  fields_list :: "ConfigField list"

datatype SetupMutation =
    SaveConfigM string jsval
  | InstallDependencyM string

text \<open>
  \<open>collectedValues\<close> is a JavaScript \<open>Map\<close>, which remembers the order in which its
  keys were first inserted: an association list with unique keys.
\<close>

record SetupSession =
  sessionId :: string
  pluginId :: string
  configSchema :: ConfigSchema
  mutations :: "SetupMutation list"
  collectedValues :: "(string \<times> jsval) list"
  completed :: bool
  createdAt :: nat

text \<open>
  Modelled from the spec: \<open>A2AToolResult\<close> comes from the plugin-types package; the
  handlers build it only through \<open>textResult\<close>, as one text block and an error flag.
\<close>

record A2AToolResult =
  content :: "string list"
  isError :: bool

definition textResult :: "string \<Rightarrow> bool \<Rightarrow> A2AToolResult" where
  "textResult t e = \<lparr>content = [t], isError = e\<rparr>"

section \<open>The outside world\<close>

text \<open>
  Every call that leaves the plugin is written to a log, oldest call first: a call of the
  host's \<open>ctx.saveConfig\<close> with the configuration object it is given, and a call of
  \<open>fetch\<close> with its URL and the \<open>name\<close> of the JSON body it posts.
\<close>

datatype call =
    SaveConfigCall "string \<rightharpoonup> jsval"
  | FetchCall string string

text \<open>
  The two properties that the install handler reads of a parsed body. The handler casts
  the body to \<open>{ success?: boolean; error?: string }\<close>, but the cast checks
  nothing: each property holds whatever JSON value the server sent, and
  \<open>JUndefined\<close> when the body has no such property (as a body that is a number, a
  string, a boolean or an array has none).
\<close>

record install_body =
  success :: jsval
  error :: jsval

text \<open>
  What the handlers read of a \<open>fetch\<close> response: \<open>res.ok\<close>, \<open>res.status\<close> and
  the outcome of \<open>res.json()\<close>, which either rejects (\<open>Inl\<close>, carrying
  \<open>String(err)\<close>) or yields the parsed body; \<open>None\<close> is the JSON value
  \<open>null\<close>, of which no property can be read.
\<close>

record Response =
  ok :: bool
  status :: nat
  json :: "string + install_body option"

text \<open>
  Modelled from the spec: the capabilities of section 6, which the plugin calls but does
  not implement. The environment fixes how they answer, as a function of the log of calls
  up to and including the call being answered, so that an answer may depend on everything
  that happened before.
  \<^item> \<open>RegExp\<close> is the constructor \<open>new RegExp(pattern)\<close>: \<open>Inl\<close> when it throws a
    \<open>SyntaxError\<close>, else the \<open>test\<close> function of the compiled expression.
  \<^item> \<open>fetch_reply\<close> answers a \<open>fetch\<close>: \<open>Inl\<close> when the promise rejects.
  \<^item> \<open>saveConfig_reply\<close> answers \<open>ctx.saveConfig\<close>: \<open>Some err\<close> when it throws.
  \<^item> \<open>getConfig_shares\<close> tells whether \<open>ctx.getConfig()\<close> hands out the host's own
    configuration object (as \<open>makeCtx\<close> of tests/tools.test.ts does), so that a
    change the handler makes to it is a change of the stored configuration at once, or
    a copy, which takes effect only when the host accepts it back.
  \<^item> \<open>object_string\<close> is the string that an object turns into inside a template
    literal.
\<close>

record env =
  RegExp :: "string \<Rightarrow> string + (string \<Rightarrow> bool)"
  fetch_reply :: "call list \<Rightarrow> string + Response"
  saveConfig_reply :: "call list \<Rightarrow> string option"
  getConfig_shares :: bool
  object_string :: "nat \<Rightarrow> string"

text \<open>
  The mutable state. Session objects live in a heap \<open>objs\<close> and the module-level
  \<open>sessions\<close> map of session-store.ts holds references to them, as a JavaScript
  \<open>Map\<close> does: an object that was removed from the map still exists for whoever holds
  it. \<open>config\<close> is what the host's \<open>ctx.getConfig()\<close> returns (\<open>None\<close> for
  \<open>null\<close> or \<open>undefined\<close>), \<open>emitted\<close> the events passed to
  \<open>ctx.events.emit\<close>.
\<close>

record event =
  ev_name :: string
  ev_pluginId :: string
  ev_sessionId :: string
  ev_configKeys :: "string list"

record world =
  objs :: "nat \<Rightarrow> SetupSession"
  next_ref :: nat
  sessions :: "string \<rightharpoonup> nat"
  config :: "(string \<rightharpoonup> jsval) option"
  calls :: "call list"
  emitted :: "event list"

text \<open>
  Modelled from the spec: the host's configuration store, as section 6 describes it and
  as \<open>makeCtx\<close> of tests/tools.test.ts implements it. \<open>ctx.getConfig()\<close> returns the
  stored configuration and does not throw; \<open>ctx.saveConfig(c)\<close> either throws and
  stores nothing, or stores \<open>c\<close>. The handlers change the object that
  \<open>ctx.getConfig()\<close> gave them before they pass it to \<open>ctx.saveConfig\<close>:
  \<open>changed_in_place\<close> is the effect of that change on the stored configuration,
  which there is when the host shares its object and \<open>ctx.getConfig()\<close> returned
  one (after \<open>?? {}\<close> replaced a missing configuration, the handler holds a new
  object of its own).
\<close>

definition ctx_getConfig :: "world \<Rightarrow> (string \<rightharpoonup> jsval) option" where
  "ctx_getConfig w = config w"

definition changed_in_place :: "env \<Rightarrow> (string \<rightharpoonup> jsval) option \<Rightarrow> (string \<rightharpoonup> jsval) \<Rightarrow> world \<Rightarrow> world" where
  "changed_in_place e got c w =
     (if getConfig_shares e \<and> got \<noteq> None then w\<lparr>config := Some c\<rparr> else w)"

definition ctx_saveConfig :: "env \<Rightarrow> (string \<rightharpoonup> jsval) \<Rightarrow> world \<Rightarrow> string option \<times> world" where
  "ctx_saveConfig e c w =
     (let log = calls w @ [SaveConfigCall c] in
      case saveConfig_reply e log of
        Some err \<Rightarrow> (Some err, w\<lparr>calls := log\<rparr>)
      | None \<Rightarrow> (None, w\<lparr>config := Some c, calls := log\<rparr>))"

text \<open>
  Modelled from the spec: the global \<open>fetch\<close>, reduced to the URL and the \<open>name\<close>
  it posts, and the notification port \<open>ctx.events.emit\<close>, which is fire-and-forget
  and does not throw.
\<close>

definition fetch :: "env \<Rightarrow> string \<Rightarrow> string \<Rightarrow> world \<Rightarrow> (string + Response) \<times> world" where
  "fetch e url nm w =
     (let log = calls w @ [FetchCall url nm] in (fetch_reply e log, w\<lparr>calls := log\<rparr>))"

definition ctx_events_emit :: "event \<Rightarrow> world \<Rightarrow> world" where
  "ctx_events_emit ev w = w\<lparr>emitted := emitted w @ [ev]\<rparr>"

section \<open>String helpers of the language\<close>

text \<open>\<open>Array.prototype.join\<close>.\<close>

fun join :: "string \<Rightarrow> string list \<Rightarrow> string" where
  "join sep [] = []"
| "join sep [x] = x"
| "join sep (x # y # ys) = x @ sep @ join sep (y # ys)"

text \<open>A number inside a template literal: the decimal digits of a status code.\<close>

definition digit_char :: "nat \<Rightarrow> char" where
  "digit_char d = ''0123456789'' ! d"

fun show_nat :: "nat \<Rightarrow> string" where
  "show_nat n = (if n < 10 then [digit_char n] else show_nat (n div 10) @ [digit_char (n mod 10)])"

text \<open>
  Truthiness, as \<open>!x\<close> tests it, and the values that \<open>??\<close> replaces.
\<close>

fun truthy :: "jsval \<Rightarrow> bool" where
  "truthy JUndefined = False"
| "truthy JNull = False"
| "truthy (JBool b) = b"
| "truthy (JNum n) = (n \<noteq> 0)"
| "truthy (JStr s) = (s \<noteq> [])"
| "truthy (JObj a) = True"

fun nullish :: "jsval \<Rightarrow> bool" where
  "nullish JUndefined = True"
| "nullish JNull = True"
| "nullish _ = False"

text \<open>A value inside a template literal.\<close>

fun String_of :: "env \<Rightarrow> jsval \<Rightarrow> string" where
  "String_of e JUndefined = ''undefined''"
| "String_of e JNull = ''null''"
| "String_of e (JBool b) = (if b then ''true'' else ''false'')"
| "String_of e (JNum n) = (if n < 0 then ''-'' @ show_nat (nat (- n)) else show_nat (nat n))"
| "String_of e (JStr s) = s"
| "String_of e (JObj a) = object_string e a"

text \<open>
  The \<open>TypeError\<close> of reading a property of \<open>null\<close>, in the words of V8.
\<close>

definition null_TypeError :: "string \<Rightarrow> string" where
  "null_TypeError prop =
     ''TypeError: Cannot read properties of null (reading '' @ [CHR 0x27] @ prop @
     [CHR 0x27] @ '')''"

text \<open>\<open>Map.prototype.set\<close>: an existing key keeps its place, a new key goes last.\<close>

fun Map_set :: "string \<Rightarrow> jsval \<Rightarrow> (string \<times> jsval) list \<Rightarrow> (string \<times> jsval) list" where
  "Map_set k v [] = [(k, v)]"
| "Map_set k v ((k', v') # kvs) = (if k' = k then (k, v) # kvs else (k', v') # Map_set k v kvs)"

section \<open>session-store.ts\<close>

definition createSession :: "string \<Rightarrow> string \<Rightarrow> ConfigSchema \<Rightarrow> nat \<Rightarrow> world \<Rightarrow> nat \<times> world" where
  "createSession sid pid schema now w =
     (let r = next_ref w;
          session = \<lparr>sessionId = sid, pluginId = pid, configSchema = schema, mutations = [],
                     collectedValues = [], completed = False, createdAt = now\<rparr>
      in (r, w\<lparr>objs := (objs w)(r := session), next_ref := Suc r,
                sessions := (sessions w)(sid \<mapsto> r)\<rparr>))"

definition getSession :: "string \<Rightarrow> world \<Rightarrow> nat option" where
  "getSession sid w = sessions w sid"

definition deleteSession :: "string \<Rightarrow> world \<Rightarrow> bool \<times> world" where
  "deleteSession sid w = (sessions w sid \<noteq> None, w\<lparr>sessions := (sessions w)(sid := None)\<rparr>)"

definition isSetupActive :: "string \<Rightarrow> world \<Rightarrow> bool" where
  "isSetupActive sid w =
     (case sessions w sid of None \<Rightarrow> False | Some r \<Rightarrow> \<not> completed (objs w r))"

definition clearAllSessions :: "world \<Rightarrow> world" where
  "clearAllSessions w = w\<lparr>sessions := Map.empty\<rparr>"

section \<open>The setup tools\<close>

text \<open>
  Each handler takes the state of the world and returns its result with the world it
  leaves behind. Logging through \<open>logger.info\<close> has no effect on either and is left
  out. The double quote of the message templates is \<open>dq\<close>, the line feed \<open>nl\<close>.
\<close>

definition dq :: string where
  "dq = [CHR 0x22]"

definition nl :: string where
  "nl = [CHR 0x0A]"

declare show_nat.simps [simp del]

subsection \<open>setup.installDependency\<close>

text \<open>
  The test of line 123 is \<open>!res.ok || !body.success\<close>: the truthiness of whatever the
  body holds under \<open>success\<close>. When the body is \<open>null\<close> the first property read
  throws, \<open>body.success\<close> in the test when the response is ok and \<open>body.error\<close> in
  the message when it is not, and the \<open>catch\<close> reports it.
\<close>

definition installDependency_handler :: "env \<Rightarrow> string \<Rightarrow> string \<Rightarrow> world \<Rightarrow> A2AToolResult \<times> world" where
  "installDependency_handler e sid pid w =
     (case getSession sid w of
        None \<Rightarrow> (textResult (''No active setup session: '' @ sid) True, w)
      | Some r \<Rightarrow>
          (case fetch e ''http://localhost:7437/plugins/install'' pid w of
             (Inl err, w') \<Rightarrow> (textResult (''Failed to install '' @ pid @ '': '' @ err) True, w')
           | (Inr res, w') \<Rightarrow>
               (case json res of
                  Inl err \<Rightarrow> (textResult (''Failed to install '' @ pid @ '': '' @ err) True, w')
                | Inr None \<Rightarrow>
                    (textResult (''Failed to install '' @ pid @ '': '' @
                       null_TypeError (if \<not> ok res then ''error'' else ''success'')) True, w')
                | Inr (Some body) \<Rightarrow>
                    if \<not> ok res \<or> \<not> truthy (success body)
                    then (textResult (''Failed to install '' @ pid @ '': '' @
                            (if nullish (error body) then ''HTTP '' @ show_nat (status res)
                             else String_of e (error body))) True, w')
                    else
                      (let session = objs w' r;
                           session = session\<lparr>mutations :=
                             mutations session @ [InstallDependencyM pid]\<rparr>
                       in (textResult (''Successfully installed '' @ pid) False,
                           w'\<lparr>objs := (objs w')(r := session)\<rparr>)))))"

subsection \<open>setup.saveConfig\<close>

text \<open>
  The pattern check of lines 194 to 202. \<open>if (field.pattern)\<close> is false for a missing
  and for an empty pattern. The constructor runs before the type of the value is looked
  at and outside any \<open>try\<close>, so a pattern that does not compile makes the handler
  throw (\<open>Inl\<close>) whatever the value is. \<open>Inr (Some res)\<close> is the rejection the
  handler returns, \<open>Inr None\<close> means the check let the value through.
\<close>

definition check_pattern :: "env \<Rightarrow> ConfigField \<Rightarrow> string \<Rightarrow> jsval \<Rightarrow> string + A2AToolResult option" where
  "check_pattern e field key val =
     (case pattern field of
        None \<Rightarrow> Inr None
      | Some p \<Rightarrow>
          if p = [] then Inr None
          else
            (case RegExp e p of
               Inl err \<Rightarrow> Inl err
             | Inr regex_test \<Rightarrow>
                 (case val of
                    JStr s \<Rightarrow>
                      if \<not> regex_test s
                      then Inr (Some (textResult
                             (case patternError field of
                                Some msg \<Rightarrow> msg
                              | None \<Rightarrow> ''Value for '' @ dq @ key @ dq @
                                         '' does not match pattern: '' @ p) True))
                      else Inr None
                  | _ \<Rightarrow> Inr None)))"

text \<open>The \<open>try\<close> block of lines 204 to 214, for the session object at \<open>r\<close>.\<close>

definition persist_value :: "env \<Rightarrow> nat \<Rightarrow> string \<Rightarrow> jsval \<Rightarrow> world \<Rightarrow> A2AToolResult \<times> world" where
  "persist_value e r key val w =
     (let got = ctx_getConfig w;
          currentConfig = (case got of None \<Rightarrow> Map.empty | Some c \<Rightarrow> c);
          currentConfig = currentConfig(key \<mapsto> val);
          w = changed_in_place e got currentConfig w
      in case ctx_saveConfig e currentConfig w of
           (Some err, w') \<Rightarrow>
             (textResult (''Failed to save '' @ dq @ key @ dq @ '': '' @ err) True, w')
         | (None, w') \<Rightarrow>
             (let session = objs w' r;
                  session = session\<lparr>mutations := mutations session @ [SaveConfigM key val]\<rparr>;
                  session = session\<lparr>collectedValues :=
                    Map_set key val (collectedValues session)\<rparr>
              in (textResult (''Saved '' @ dq @ key @ dq @ '' successfully.'') False,
                  w'\<lparr>objs := (objs w')(r := session)\<rparr>)))"

text \<open>
  The handler returns \<open>Inr\<close> of its result, or \<open>Inl\<close> of the error when its promise
  rejects.
\<close>

definition saveConfig_handler :: "env \<Rightarrow> string \<Rightarrow> string \<Rightarrow> jsval \<Rightarrow> world \<Rightarrow> (string + A2AToolResult) \<times> world" where
  "saveConfig_handler e sid key val w =
     (case getSession sid w of
        None \<Rightarrow> (Inr (textResult (''No active setup session: '' @ sid) True), w)
      | Some r \<Rightarrow>
          (let session = objs w r in
           case find (\<lambda>f. name f = key) (fields_list (configSchema session)) of
             None \<Rightarrow>
               (Inr (textResult (''Unknown config field: '' @ key @ ''. Valid fields: '' @
                  join '', '' (map name (fields_list (configSchema session)))) True), w)
           | Some field \<Rightarrow>
               if required field = Some True \<and>
                  (val = JNull \<or> val = JUndefined \<or> val = JStr [])
               then (Inr (textResult (''Field '' @ dq @ key @ dq @
                       '' is required and cannot be empty.'') True), w)
               else
                 (case check_pattern e field key val of
                    Inl err \<Rightarrow> (Inl err, w)
                  | Inr (Some rejection) \<Rightarrow> (Inr rejection, w)
                  | Inr None \<Rightarrow>
                      (case persist_value e r key val w of (res, w') \<Rightarrow> (Inr res, w')))))"

subsection \<open>setup.complete\<close>

definition complete_handler :: "string \<Rightarrow> world \<Rightarrow> A2AToolResult \<times> world" where
  "complete_handler sid w =
     (case getSession sid w of
        None \<Rightarrow> (textResult (''No active setup session: '' @ sid) True, w)
      | Some r \<Rightarrow>
          if completed (objs w r) then (textResult ''Setup already completed.'' True, w)
          else
            (let w1 = w\<lparr>objs := (objs w)(r := (objs w r)\<lparr>completed := True\<rparr>)\<rparr>;
                 session = objs w1 r;
                 w2 = ctx_events_emit
                        \<lparr>ev_name = ''setup:complete'', ev_pluginId = pluginId session,
                         ev_sessionId = sid,
                         ev_configKeys = map fst (collectedValues session)\<rparr> w1
             in (textResult (''Setup complete for '' @ pluginId session @
                    ''. Plugin is now active.'') False, w2)))"

subsection \<open>setup.rollback\<close>

text \<open>
  One turn of the loop of lines 268 to 294: the compensation of one mutation, with the
  \<open>errors\<close> array it may push to. A failure is caught and pushed; the turn always ends
  normally.
\<close>

definition rollback_step :: "env \<Rightarrow> SetupMutation \<Rightarrow> string list \<Rightarrow> world \<Rightarrow> string list \<times> world" where
  "rollback_step e mutation errors w =
     (case mutation of
        SaveConfigM key val \<Rightarrow>
          (let got = ctx_getConfig w;
               currentConfig = (case got of None \<Rightarrow> Map.empty | Some c \<Rightarrow> c);
               currentConfig = currentConfig(key := None);
               w = changed_in_place e got currentConfig w
           in case ctx_saveConfig e currentConfig w of
                (Some err, w') \<Rightarrow> (errors @ [''Rollback error: '' @ err], w')
              | (None, w') \<Rightarrow> (errors, w'))
      | InstallDependencyM pid \<Rightarrow>
          (case fetch e ''http://localhost:7437/plugins/uninstall'' pid w of
             (Inl err, w') \<Rightarrow> (errors @ [''Rollback error: '' @ err], w')
           | (Inr res, w') \<Rightarrow>
               if \<not> ok res
               then (errors @ [''Failed to uninstall '' @ pid @ '': HTTP '' @
                       show_nat (status res)], w')
               else (errors, w')))"

fun rollback_loop :: "env \<Rightarrow> SetupMutation list \<Rightarrow> string list \<Rightarrow> world \<Rightarrow> string list \<times> world" where
  "rollback_loop e [] errors w = (errors, w)"
| "rollback_loop e (m # ms) errors w =
     (case rollback_step e m errors w of (errors', w') \<Rightarrow> rollback_loop e ms errors' w')"

definition rollback_handler :: "env \<Rightarrow> string \<Rightarrow> world \<Rightarrow> A2AToolResult \<times> world" where
  "rollback_handler e sid w =
     (case getSession sid w of
        None \<Rightarrow> (textResult (''No active setup session: '' @ sid) True, w)
      | Some r \<Rightarrow>
          (let reversed = rev (mutations (objs w r)) in
           case rollback_loop e reversed [] w of
             (errors, w1) \<Rightarrow>
               (let w2 = w1\<lparr>objs := (objs w1)(r := (objs w1 r)\<lparr>mutations := []\<rparr>)\<rparr>;
                    w3 = w2\<lparr>objs := (objs w2)(r := (objs w2 r)\<lparr>collectedValues := []\<rparr>)\<rparr>;
                    w4 = snd (deleteSession sid w3)
                in if length errors > 0
                   then (textResult (''Rollback completed with errors:'' @ nl @
                           join nl errors) True, w4)
                   else (textResult ''Rollback complete. All changes undone.'' False, w4))))"

section \<open>Sequences of operations (index.ts)\<close>

text \<open>
  The operations that change sessions, configuration or events: \<open>beginSetup\<close> of the
  extension (which calls \<open>createSession\<close> with the result of \<open>Date.now()\<close>), four of
  the tools, and \<open>shutdown\<close>. The tools \<open>setup.ask\<close>, \<open>setup.validateKey\<close> and
  \<open>setup.testConnection\<close> read a session at most and write none of these.
\<close>

datatype op =
    BeginSetup string ConfigSchema string nat
  | InstallDependency string string
  | SaveConfig string string jsval
  | Complete string
  | Rollback string
  | Shutdown

fun step :: "env \<Rightarrow> op \<Rightarrow> world \<Rightarrow> world" where
  "step e (BeginSetup pid schema sid now) w = snd (createSession sid pid schema now w)"
| "step e (InstallDependency sid pid) w = snd (installDependency_handler e sid pid w)"
| "step e (SaveConfig sid key val) w = snd (saveConfig_handler e sid key val w)"
| "step e (Complete sid) w = snd (complete_handler sid w)"
| "step e (Rollback sid) w = snd (rollback_handler e sid w)"
| "step e Shutdown w = clearAllSessions w"

fun run :: "env \<Rightarrow> op list \<Rightarrow> world \<Rightarrow> world" where
  "run e [] w = w"
| "run e (x # xs) w = run e xs (step e x w)"

section \<open>Notions used to state the properties\<close>

text \<open>
  A call compensates a mutation: for a saved key, the host is asked to store a
  configuration that lacks the key; for an installed plugin, the uninstall endpoint is
  posted the plugin's name.
\<close>

fun compensates :: "SetupMutation \<Rightarrow> call \<Rightarrow> bool" where
  "compensates (SaveConfigM key val) (SaveConfigCall c) = (c key = None)"
| "compensates (InstallDependencyM pid) (FetchCall url nm) =
     (url = ''http://localhost:7437/plugins/uninstall'' \<and> nm = pid)"
| "compensates _ _ = False"

text \<open>
  Whether the environment lets a compensating call \<open>c\<close> fail, given the calls made
  before it, and the message that describes the failure: a thrown error, or an uninstall
  response that is not ok.
\<close>

definition call_failure :: "env \<Rightarrow> call list \<Rightarrow> call \<Rightarrow> string option" where
  "call_failure e before c =
     (case c of
        SaveConfigCall cfg \<Rightarrow>
          (case saveConfig_reply e (before @ [c]) of
             Some err \<Rightarrow> Some (''Rollback error: '' @ err)
           | None \<Rightarrow> None)
      | FetchCall url nm \<Rightarrow>
          (case fetch_reply e (before @ [c]) of
             Inl err \<Rightarrow> Some (''Rollback error: '' @ err)
           | Inr res \<Rightarrow>
               if ok res then None
               else Some (''Failed to uninstall '' @ nm @ '': HTTP '' @ show_nat (status res))))"

text \<open>The failure messages of a run of calls, in the order of the calls.\<close>

fun failures :: "env \<Rightarrow> call list \<Rightarrow> call list \<Rightarrow> string list" where
  "failures e before [] = []"
| "failures e before (c # cs) =
     (case call_failure e before c of None \<Rightarrow> [] | Some msg \<Rightarrow> [msg]) @
     failures e (before @ [c]) cs"

text \<open>
  The failure messages of the compensating calls that a rollback of the session makes in
  the world \<open>w\<close>: the calls are the ones it adds to the log.
\<close>

definition rollback_failures :: "env \<Rightarrow> string \<Rightarrow> world \<Rightarrow> string list" where
  "rollback_failures e sid w =
     failures e (calls w) (drop (length (calls w)) (calls (snd (rollback_handler e sid w))))"


text \<open>
  The install call succeeded in the handler's eyes: the \<open>fetch\<close> resolved, the
  response is ok and its body parsed to a value other than \<open>null\<close> whose \<open>success\<close>
  is truthy.
\<close>

definition install_succeeded :: "string + Response \<Rightarrow> bool" where
  "install_succeeded reply =
     (case reply of
        Inl err \<Rightarrow> False
      | Inr res \<Rightarrow>
          ok res \<and>
          (case json res of
             Inl err \<Rightarrow> False
           | Inr None \<Rightarrow> False
           | Inr (Some body) \<Rightarrow> truthy (success body)))"

text \<open>
  The store is well formed: two session ids never share a session object, and every
  object in the store was allocated. \<open>createSession\<close> makes a new object on each call,
  so every store that the module builds is of this kind (\<open>store_inv_step\<close> below).
\<close>

definition store_inv :: "world \<Rightarrow> bool" where
  "store_inv w =
     ((\<forall>sid sid' r. sessions w sid = Some r \<and> sessions w sid' = Some r \<longrightarrow> sid = sid') \<and>
      (\<forall>sid r. sessions w sid = Some r \<longrightarrow> r < next_ref w))"

text \<open>An operation that begins a session under the id \<open>sid\<close>.\<close>

fun begins :: "string \<Rightarrow> op \<Rightarrow> bool" where
  "begins sid (BeginSetup pid schema sid' now) = (sid' = sid)"
| "begins sid _ = False"

text \<open>The number of completion notifications emitted so far for a session id.\<close>

definition completions :: "string \<Rightarrow> world \<Rightarrow> nat" where
  "completions sid w =
     length (filter (\<lambda>ev. ev_name ev = ''setup:complete'' \<and> ev_sessionId ev = sid) (emitted w))"

text \<open>A session id is terminal when it has no session or a completed one.\<close>

definition terminal :: "string \<Rightarrow> world \<Rightarrow> bool" where
  "terminal sid w = (case getSession sid w of None \<Rightarrow> True | Some r \<Rightarrow> completed (objs w r))"

section \<open>Sample data\<close>

text \<open>
  A schema with a required field, a required field with a pattern and its own error
  message (as the test file tests/tools.test.ts sets them up) and a field whose pattern is
  not a regular expression, and a world holding a session \<open>s1\<close> for it whose
  ledger, completion flag and host configuration are chosen by the caller (the tests push
  mutations to the session object in the same way).
\<close>

definition blank_session :: SetupSession where
  "blank_session =
     \<lparr>sessionId = [], pluginId = [], configSchema = \<lparr>title = [], fields_list = []\<rparr>,
      mutations = [], collectedValues = [], completed = False, createdAt = 0\<rparr>"

definition token_field :: ConfigField where
  "token_field =
     \<lparr>name = ''token'', ftype = Password, label = ''Token'', description = None,
      placeholder = None, required = Some True, pattern = None, patternError = None,
      options = None\<rparr>"

definition id_field :: ConfigField where
  "id_field =
     \<lparr>name = ''id'', ftype = Text, label = ''ID'', description = None,
      placeholder = None, required = Some True, pattern = Some ''^[0-9]+$'',
      patternError = Some ''Must be numeric'', options = None\<rparr>"

definition port_field :: ConfigField where
  "port_field =
     \<lparr>name = ''port'', ftype = Number, label = ''Port'', description = None,
      placeholder = None, required = None, pattern = Some ''('',
      patternError = None, options = None\<rparr>"

definition sample_schema :: ConfigSchema where
  "sample_schema = \<lparr>title = ''T'', fields_list = [token_field, id_field, port_field]\<rparr>"

definition sample_world :: "SetupMutation list \<Rightarrow> bool \<Rightarrow> (string \<rightharpoonup> jsval) option \<Rightarrow> world" where
  "sample_world ms done cfg =
     \<lparr>objs = (\<lambda>_. blank_session)
        (0 := \<lparr>sessionId = ''s1'', pluginId = ''p'', configSchema = sample_schema,
               mutations = ms, collectedValues = [], completed = done, createdAt = 0\<rparr>),
      next_ref = 1, sessions = [''s1'' \<mapsto> 0], config = cfg, calls = [], emitted = []\<rparr>"

text \<open>
  An environment in the manner of the mocks of the test files. Of the patterns it knows
  \<open>(\<close>, which JavaScript refuses with a \<open>SyntaxError\<close>, and \<open>^[0-9]+$\<close>, which
  matches the non-empty strings of decimal digits (\<open>digits_only\<close>). Every \<open>fetch\<close> that names the plugin
  \<open>p1\<close> is answered with HTTP 500 and \<open>{error: "boom"}\<close>, every one that names
  \<open>p2\<close> with HTTP 200 and \<open>{}\<close>, every one that names \<open>p3\<close> with HTTP 200 and
  \<open>{success: 1}\<close>, any other with 200 and \<open>{success: true}\<close>. The host shares its
  configuration object and never fails to save. Two more hosts hand out copies:
  \<open>readonly_env\<close> refuses every write, \<open>write_once_env\<close> every write but the first
  call made.
\<close>

definition digits_only :: "string \<Rightarrow> bool" where
  "digits_only s = (s \<noteq> [] \<and> list_all (\<lambda>c. c \<in> set ''0123456789'') s)"

definition sample_env :: env where
  "sample_env =
     \<lparr>RegExp = (\<lambda>p.
        if p = ''('' then Inl ''SyntaxError: Invalid regular expression''
        else if p = ''^[0-9]+$'' then Inr digits_only
        else Inr (\<lambda>s. True)),
      fetch_reply = (\<lambda>log.
        case rev log of
          FetchCall url nm # _ \<Rightarrow>
            if nm = ''p1''
            then Inr \<lparr>ok = False, status = 500,
                       json = Inr (Some \<lparr>success = JUndefined, error = JStr ''boom''\<rparr>)\<rparr>
            else if nm = ''p2''
            then Inr \<lparr>ok = True, status = 200,
                       json = Inr (Some \<lparr>success = JUndefined, error = JUndefined\<rparr>)\<rparr>
            else if nm = ''p3''
            then Inr \<lparr>ok = True, status = 200,
                       json = Inr (Some \<lparr>success = JNum 1, error = JUndefined\<rparr>)\<rparr>
            else Inr \<lparr>ok = True, status = 200,
                       json = Inr (Some \<lparr>success = JBool True, error = JUndefined\<rparr>)\<rparr>
        | _ \<Rightarrow> Inl ''TypeError: fetch failed''),
      saveConfig_reply = (\<lambda>log. None),
      getConfig_shares = True,
      object_string = (\<lambda>a. ''[object Object]'')\<rparr>"

definition readonly_env :: env where
  "readonly_env =
     sample_env\<lparr>saveConfig_reply := (\<lambda>log. Some ''Error: read-only''),
                getConfig_shares := False\<rparr>"

definition write_once_env :: env where
  "write_once_env =
     sample_env\<lparr>saveConfig_reply :=
                  (\<lambda>log. if length log \<le> 1 then None else Some ''Error: read-only''),
                getConfig_shares := False\<rparr>"

text \<open>
  Four worlds: a ledger of three mutations; a completed session with one saved key; a new
  session over a configuration that already has a \<open>token\<close>; two sessions side by side.
\<close>

definition ledger3_world :: world where
  "ledger3_world =
     sample_world [SaveConfigM ''a'' (JStr ''1''), InstallDependencyM ''p1'',
                   SaveConfigM ''b'' (JStr ''2'')] False
       (Some [''a'' \<mapsto> JStr ''1'', ''b'' \<mapsto> JStr ''2''])"

definition completed_world :: world where
  "completed_world =
     sample_world [SaveConfigM ''token'' (JStr ''sk-123'')] True
       (Some [''token'' \<mapsto> JStr ''sk-123''])"

definition fresh_world :: world where
  "fresh_world = sample_world [] False (Some [''token'' \<mapsto> JStr ''old''])"

definition sample_world2 :: world where
  "sample_world2 =
     \<lparr>objs = (\<lambda>_. blank_session)
        (0 := \<lparr>sessionId = ''s1'', pluginId = ''p'', configSchema = sample_schema,
               mutations = [SaveConfigM ''token'' (JStr ''sk-123'')],
               collectedValues = [(''token'', JStr ''sk-123'')], completed = False,
               createdAt = 0\<rparr>,
         1 := \<lparr>sessionId = ''s2'', pluginId = ''q'', configSchema = sample_schema,
               mutations = [], collectedValues = [], completed = False, createdAt = 1\<rparr>),
      next_ref = 2, sessions = [''s1'' \<mapsto> 0, ''s2'' \<mapsto> 1],
      config = Some [''token'' \<mapsto> JStr ''sk-123''], calls = [], emitted = []\<rparr>"

section \<open>Unfolding the model on concrete inputs\<close>

lemmas handler_defs =
  getSession_def deleteSession_def ctx_getConfig_def ctx_saveConfig_def fetch_def
  changed_in_place_def
  ctx_events_emit_def textResult_def rollback_step_def rollback_handler_def
  complete_handler_def saveConfig_handler_def check_pattern_def persist_value_def
  installDependency_handler_def Let_def

lemmas sample_defs =
  sample_world_def sample_env_def readonly_env_def write_once_env_def sample_schema_def
  token_field_def id_field_def port_field_def digits_only_def

section \<open>What each operation leaves alone\<close>

lemma rollback_step_frame:
  "rollback_step e m errs w = (errs', w') \<Longrightarrow>
     objs w' = objs w \<and> sessions w' = sessions w \<and> next_ref w' = next_ref w \<and>
     emitted w' = emitted w"
  by (auto simp: rollback_step_def ctx_saveConfig_def changed_in_place_def fetch_def
           Let_def
           split: SetupMutation.splits option.splits sum.splits if_splits)

lemma rollback_loop_frame:
  "rollback_loop e ms errs w = (errs', w') \<Longrightarrow>
     objs w' = objs w \<and> sessions w' = sessions w \<and> next_ref w' = next_ref w \<and>
     emitted w' = emitted w"
proof (induction ms arbitrary: errs w)
  case Nil
  then show ?case by simp
next
  case (Cons m ms)
  obtain e1 w1 where s: "rollback_step e m errs w = (e1, w1)"
    by (cases "rollback_step e m errs w")
  with Cons.prems have "rollback_loop e ms e1 w1 = (errs', w')" by simp
  from Cons.IH[OF this] rollback_step_frame[OF s] show ?case by simp
qed

lemma rollback_frame:
  "rollback_handler e sid w = (res, w') \<Longrightarrow>
     sessions w' = (sessions w)(sid := None) \<and> next_ref w' = next_ref w \<and>
     emitted w' = emitted w \<and> (\<forall>x. completed (objs w' x) = completed (objs w x))"
proof (cases "getSession sid w")
  case None
  assume "rollback_handler e sid w = (res, w')"
  with None have "w' = w" by (simp add: rollback_handler_def)
  with None show ?thesis by (auto simp: getSession_def)
next
  case (Some r)
  assume h: "rollback_handler e sid w = (res, w')"
  obtain errs w1 where l: "rollback_loop e (rev (mutations (objs w r))) [] w = (errs, w1)"
    by (cases "rollback_loop e (rev (mutations (objs w r))) [] w")
  from rollback_loop_frame[OF l] h Some l show ?thesis
    by (auto simp: rollback_handler_def deleteSession_def Let_def split: if_splits)
qed

lemma rollback_handler_gone: "getSession sid (snd (rollback_handler e sid w)) = None"
  using rollback_frame[of e sid w]
  by (cases "rollback_handler e sid w") (simp add: getSession_def)

lemma installDependency_frame:
  "installDependency_handler e sid pid w = (res, w') \<Longrightarrow>
     sessions w' = sessions w \<and> next_ref w' = next_ref w \<and> emitted w' = emitted w \<and>
     (\<forall>x. completed (objs w' x) = completed (objs w x))"
  by (auto simp: installDependency_handler_def fetch_def Let_def
        split: option.splits sum.splits if_splits)

lemma saveConfig_frame:
  "saveConfig_handler e sid key val w = (res, w') \<Longrightarrow>
     sessions w' = sessions w \<and> next_ref w' = next_ref w \<and> emitted w' = emitted w \<and>
     (\<forall>x. completed (objs w' x) = completed (objs w x))"
  by (auto simp: saveConfig_handler_def persist_value_def ctx_saveConfig_def
        changed_in_place_def Let_def
        split: option.splits sum.splits if_splits prod.splits)

lemma complete_keeps_store:
  "complete_handler sid w = (res, w') \<Longrightarrow>
     sessions w' = sessions w \<and> next_ref w' = next_ref w \<and>
     (\<forall>x. completed (objs w x) \<longrightarrow> completed (objs w' x))"
  by (auto simp: complete_handler_def ctx_events_emit_def Let_def
        split: option.splits if_splits)

text \<open>Every operation keeps the store well formed.\<close>

lemma store_inv_step: "store_inv w \<Longrightarrow> store_inv (step e x w)"
proof (cases x)
  case (BeginSetup pid schema sid now)
  assume "store_inv w"
  then show ?thesis
    unfolding BeginSetup store_inv_def
    by (auto simp: createSession_def Let_def less_Suc_eq split: if_splits)
next
  case (InstallDependency sid pid)
  assume "store_inv w"
  with installDependency_frame[of e sid pid w] show ?thesis
    unfolding InstallDependency store_inv_def
    by (cases "installDependency_handler e sid pid w") simp
next
  case (SaveConfig sid key val)
  assume "store_inv w"
  with saveConfig_frame[of e sid key val w] show ?thesis
    unfolding SaveConfig store_inv_def
    by (cases "saveConfig_handler e sid key val w") simp
next
  case (Complete sid)
  assume "store_inv w"
  with complete_keeps_store[of sid w] show ?thesis
    unfolding Complete store_inv_def
    by (cases "complete_handler sid w") simp
next
  case (Rollback sid)
  assume "store_inv w"
  with rollback_frame[of e sid w] show ?thesis
    unfolding Rollback store_inv_def
    by (cases "rollback_handler e sid w") (auto split: if_splits)
next
  case Shutdown
  then show ?thesis by (simp add: store_inv_def clearAllSessions_def)
qed

section \<open>The calls made by a rollback\<close>

lemma rollback_step_calls:
  assumes "rollback_step e m errs w = (errs', w')"
  shows "\<exists>c. calls w' = calls w @ [c] \<and> compensates m c \<and>
             errs' = errs @ (case call_failure e (calls w) c of None \<Rightarrow> [] | Some msg \<Rightarrow> [msg])"
  using assms
  by (cases m)
     (auto simp: rollback_step_def ctx_saveConfig_def changed_in_place_def ctx_getConfig_def
           fetch_def Let_def
           call_failure_def
           split: option.splits sum.splits if_splits)

lemma rollback_loop_calls:
  "rollback_loop e ms errs w = (errs', w') \<Longrightarrow>
     \<exists>new. calls w' = calls w @ new \<and> list_all2 compensates ms new \<and>
           errs' = errs @ failures e (calls w) new"
proof (induction ms arbitrary: errs w)
  case Nil
  then show ?case by simp
next
  case (Cons m ms)
  obtain e1 w1 where s: "rollback_step e m errs w = (e1, w1)"
    by (cases "rollback_step e m errs w")
  with Cons.prems have l: "rollback_loop e ms e1 w1 = (errs', w')" by simp
  from rollback_step_calls[OF s] obtain c where
    c: "calls w1 = calls w @ [c]" "compensates m c"
       "e1 = errs @ (case call_failure e (calls w) c of None \<Rightarrow> [] | Some msg \<Rightarrow> [msg])"
    by blast
  from Cons.IH[OF l] obtain new where
    n: "calls w' = calls w1 @ new" "list_all2 compensates ms new"
       "errs' = e1 @ failures e (calls w1) new"
    by blast
  from c n have "calls w' = calls w @ (c # new) \<and> list_all2 compensates (m # ms) (c # new) \<and>
           errs' = errs @ failures e (calls w) (c # new)"
    by simp
  then show ?case by blast
qed

lemma rollback_handler_calls:
  assumes "getSession sid w = Some r"
  shows "\<exists>new. calls (snd (rollback_handler e sid w)) = calls w @ new \<and>
           list_all2 compensates (rev (mutations (objs w r))) new \<and>
           fst (rollback_handler e sid w) =
             (if failures e (calls w) new = []
              then textResult ''Rollback complete. All changes undone.'' False
              else textResult (''Rollback completed with errors:'' @ nl @
                     join nl (failures e (calls w) new)) True)"
proof -
  obtain errs w1 where l: "rollback_loop e (rev (mutations (objs w r))) [] w = (errs, w1)"
    by (cases "rollback_loop e (rev (mutations (objs w r))) [] w")
  from rollback_loop_calls[OF l] obtain new where
    n: "calls w1 = calls w @ new" "list_all2 compensates (rev (mutations (objs w r))) new"
       "errs = failures e (calls w) new"
    by auto
  from assms l n have "calls (snd (rollback_handler e sid w)) = calls w @ new \<and>
           list_all2 compensates (rev (mutations (objs w r))) new \<and>
           fst (rollback_handler e sid w) =
             (if failures e (calls w) new = []
              then textResult ''Rollback complete. All changes undone.'' False
              else textResult (''Rollback completed with errors:'' @ nl @
                     join nl (failures e (calls w) new)) True)"
    by (simp add: rollback_handler_def deleteSession_def Let_def)
  then show ?thesis by blast
qed

section \<open>Rollback compensates in reverse order\<close>

text \<open>
  Claim C1. For an existing session whose ledger is \<open>[A, B, C, ...]\<close>, the calls that
  \<open>setup.rollback\<close> adds to the log of external calls are, one for one and in this
  order, the compensations of the ledger read backwards: the first new call compensates
  the most recent mutation, the last one the oldest. Nothing is added in between, and
  the calls made before the rollback stay as they were.
\<close>

theorem rollback_reverse_order:
  assumes "getSession sid w = Some r"
  shows "take (length (calls w)) (calls (snd (rollback_handler e sid w))) = calls w \<and>
         list_all2 compensates (rev (mutations (objs w r)))
           (drop (length (calls w)) (calls (snd (rollback_handler e sid w))))"
proof -
  from rollback_handler_calls[OF assms, of e] obtain new where
    "calls (snd (rollback_handler e sid w)) = calls w @ new"
    "list_all2 compensates (rev (mutations (objs w r))) new"
    by blast
  then show ?thesis by simp
qed

text \<open>
  The ledger \<open>[saveConfig(a), installDependency(p1), saveConfig(b)]\<close> is compensated as
  \<open>b\<close>, then \<open>p1\<close>, then \<open>a\<close>.
\<close>

theorem rollback_reverse_order_witness:
  "getSession ''s1'' ledger3_world = Some 0
   \<and> take (length (calls ledger3_world))
        (calls (snd (rollback_handler sample_env ''s1'' ledger3_world))) = calls ledger3_world
   \<and> list_all2 compensates
        [SaveConfigM ''b'' (JStr ''2''), InstallDependencyM ''p1'', SaveConfigM ''a'' (JStr ''1'')]
        (drop (length (calls ledger3_world))
           (calls (snd (rollback_handler sample_env ''s1'' ledger3_world))))"
proof -
  have h: "getSession ''s1'' ledger3_world = Some 0"
    by (simp add: getSession_def ledger3_world_def sample_world_def)
  from h rollback_reverse_order [OF h, of sample_env] show ?thesis
    by (simp add: ledger3_world_def sample_world_def)
qed

section \<open>Rollback is best effort\<close>

lemma join_contains: "m \<in> set xs \<Longrightarrow> sublist m (join sep xs)"
proof (induction sep xs rule: join.induct)
  case (1 sep)
  then show ?case by simp
next
  case (2 sep x)
  then show ?case by simp
next
  case (3 sep x y ys)
  show ?case
  proof (cases "m = x")
    case True
    then show ?thesis by (simp add: sublist_append_rightI)
  next
    case False
    with "3.prems" have "m \<in> set (y # ys)" by simp
    then have "sublist m (join sep (y # ys))" by (rule "3.IH")
    then have "sublist m ((x @ sep) @ join sep (y # ys))"
      by (rule sublist_order.order_trans) (rule sublist_append_leftI)
    then show ?thesis by simp
  qed
qed

text \<open>
  Claim C2. For an existing session, whatever the environment answers, rollback makes
  exactly one compensating call for each mutation of the ledger, so a failed call never
  stops the later ones. The error flag of the result is set exactly when some call
  failed (the call threw, or the uninstall response was not ok). The result is a single
  text block: when no call failed it is the success text, and when some did it starts
  with "Rollback completed with errors:" and contains the message of every failure.
\<close>

theorem rollback_best_effort:
  assumes "getSession sid w = Some r"
  shows "length (calls (snd (rollback_handler e sid w))) =
           length (calls w) + length (mutations (objs w r))
       \<and> isError (fst (rollback_handler e sid w)) = (rollback_failures e sid w \<noteq> [])
       \<and> (\<exists>t. content (fst (rollback_handler e sid w)) = [t]
              \<and> (\<forall>m\<in>set (rollback_failures e sid w). sublist m t)
              \<and> (rollback_failures e sid w = [] \<longrightarrow>
                   t = ''Rollback complete. All changes undone.'')
              \<and> (rollback_failures e sid w \<noteq> [] \<longrightarrow>
                   prefix ''Rollback completed with errors:'' t))"
proof -
  from rollback_handler_calls[OF assms, of e] obtain new where
    n: "calls (snd (rollback_handler e sid w)) = calls w @ new"
       "list_all2 compensates (rev (mutations (objs w r))) new"
       "fst (rollback_handler e sid w) =
             (if failures e (calls w) new = []
              then textResult ''Rollback complete. All changes undone.'' False
              else textResult (''Rollback completed with errors:'' @ nl @
                     join nl (failures e (calls w) new)) True)"
    by blast
  from n(2) have len: "length new = length (mutations (objs w r))"
    by (simp add: list_all2_lengthD[symmetric])
  from n(1) have fs: "rollback_failures e sid w = failures e (calls w) new"
    by (simp add: rollback_failures_def)
  show ?thesis
  proof (cases "failures e (calls w) new = []")
    case True
    with n len fs show ?thesis by (simp add: textResult_def)
  next
    case False
    let ?t = "''Rollback completed with errors:'' @ nl @ join nl (failures e (calls w) new)"
    have "sublist m ?t" if "m \<in> set (failures e (calls w) new)" for m
    proof -
      from that have "sublist m (join nl (failures e (calls w) new))"
        by (rule join_contains)
      then have "sublist m ((''Rollback completed with errors:'' @ nl) @
                   join nl (failures e (calls w) new))"
        by (rule sublist_order.order_trans) (rule sublist_append_leftI)
      then show ?thesis by simp
    qed
    moreover have "prefix ''Rollback completed with errors:'' ?t"
      by (rule prefixI[of _ _ "nl @ join nl (failures e (calls w) new)"]) simp
    moreover from False n(3) have "content (fst (rollback_handler e sid w)) = [?t]"
      and "isError (fst (rollback_handler e sid w))"
      by (simp_all add: textResult_def)
    ultimately show ?thesis using False n(1) len fs by auto
  qed
qed

text \<open>
  A ledger of three mutations with a host that refuses every write and an uninstall that
  is answered by HTTP 500: all three calls are made, all three fail, and the one result
  holds the three messages.
\<close>

theorem rollback_best_effort_witness:
  "getSession ''s1'' ledger3_world = Some 0
   \<and> length (calls (snd (rollback_handler readonly_env ''s1'' ledger3_world))) = 3
   \<and> rollback_failures readonly_env ''s1'' ledger3_world =
       [''Rollback error: Error: read-only'', ''Failed to uninstall p1: HTTP 500'',
        ''Rollback error: Error: read-only'']
   \<and> isError (fst (rollback_handler readonly_env ''s1'' ledger3_world))
   \<and> content (fst (rollback_handler readonly_env ''s1'' ledger3_world)) =
       [''Rollback completed with errors:'' @ nl @ ''Rollback error: Error: read-only'' @ nl @
        ''Failed to uninstall p1: HTTP 500'' @ nl @ ''Rollback error: Error: read-only'']
   \<and> sublist ''Rollback error: Error: read-only''
        (''Rollback completed with errors:'' @ nl @ ''Rollback error: Error: read-only'' @ nl @
         ''Failed to uninstall p1: HTTP 500'' @ nl @ ''Rollback error: Error: read-only'')
   \<and> sublist ''Failed to uninstall p1: HTTP 500''
        (''Rollback completed with errors:'' @ nl @ ''Rollback error: Error: read-only'' @ nl @
         ''Failed to uninstall p1: HTTP 500'' @ nl @ ''Rollback error: Error: read-only'')"
proof -
  let ?T = "''Rollback completed with errors:'' @ nl @ ''Rollback error: Error: read-only'' @
        nl @ ''Failed to uninstall p1: HTTP 500'' @ nl @ ''Rollback error: Error: read-only''"
  have h: "getSession ''s1'' ledger3_world = Some 0"
    by (simp add: getSession_def ledger3_world_def sample_world_def)
  have f: "rollback_failures readonly_env ''s1'' ledger3_world =
       [''Rollback error: Error: read-only'', ''Failed to uninstall p1: HTTP 500'',
        ''Rollback error: Error: read-only'']"
    by (simp add: rollback_failures_def handler_defs sample_defs ledger3_world_def
          call_failure_def show_nat.simps digit_char_def)
  have c: "content (fst (rollback_handler readonly_env ''s1'' ledger3_world)) = [?T]"
    by (simp add: handler_defs sample_defs ledger3_world_def show_nat.simps digit_char_def)
  note t = rollback_best_effort [OF h, of readonly_env]
  from t have l: "length (calls (snd (rollback_handler readonly_env ''s1'' ledger3_world))) =
      length (calls ledger3_world) + length (mutations (objs ledger3_world 0))"
    by (elim conjE)
  from t f have i: "isError (fst (rollback_handler readonly_env ''s1'' ledger3_world))"
    by simp
  from t obtain t' where
    t': "content (fst (rollback_handler readonly_env ''s1'' ledger3_world)) = [t']"
        "\<forall>m\<in>set (rollback_failures readonly_env ''s1'' ledger3_world). sublist m t'"
    by (elim conjE exE)
  from t'(1) c have "t' = ?T" by simp
  with t'(2) f have s1: "sublist ''Rollback error: Error: read-only'' ?T"
    and s2: "sublist ''Failed to uninstall p1: HTTP 500'' ?T"
    by simp_all
  from l have l3: "length (calls (snd (rollback_handler readonly_env ''s1'' ledger3_world))) = 3"
    by (simp add: ledger3_world_def sample_world_def)
  from h l3 f i c s1 s2 show ?thesis by (intro conjI)
qed

section \<open>Rollback always discards the session\<close>

text \<open>
  Claim C3. For an existing session, whatever the environment answers to the
  compensating calls (so with no failure or with any number of them), after
  \<open>setup.rollback\<close> the store has no entry for the session id, and the session object
  has an empty ledger and an empty map of collected values.
\<close>

theorem rollback_deletes_session:
  assumes "getSession sid w = Some r"
  shows "getSession sid (snd (rollback_handler e sid w)) = None
       \<and> mutations (objs (snd (rollback_handler e sid w)) r) = []
       \<and> collectedValues (objs (snd (rollback_handler e sid w)) r) = []"
proof -
  obtain errs w1 where l: "rollback_loop e (rev (mutations (objs w r))) [] w = (errs, w1)"
    by (cases "rollback_loop e (rev (mutations (objs w r))) [] w")
  from rollback_loop_frame[OF l] assms l show ?thesis
    by (simp add: rollback_handler_def getSession_def deleteSession_def Let_def)
qed

text \<open>
  The ledger of three mutations again, where the uninstall of \<open>p1\<close> fails: the result
  is an error and the session is gone all the same.
\<close>

theorem rollback_deletes_session_witness:
  "getSession ''s1'' ledger3_world = Some 0
   \<and> isError (fst (rollback_handler sample_env ''s1'' ledger3_world))
   \<and> getSession ''s1'' (snd (rollback_handler sample_env ''s1'' ledger3_world)) = None
   \<and> mutations (objs (snd (rollback_handler sample_env ''s1'' ledger3_world)) 0) = []
   \<and> collectedValues (objs (snd (rollback_handler sample_env ''s1'' ledger3_world)) 0) = []"
proof -
  have h: "getSession ''s1'' ledger3_world = Some 0"
    by (simp add: getSession_def ledger3_world_def sample_world_def)
  have f: "isError (fst (rollback_handler sample_env ''s1'' ledger3_world))"
    by (simp add: handler_defs sample_defs ledger3_world_def)
  from h f rollback_deletes_session [OF h, of sample_env] show ?thesis by simp
qed

section \<open>Completion and rollback as terminal operations\<close>

text \<open>
  Claim C4, as amended. \<open>setup.complete\<close> fails and changes nothing when it runs on a
  session that was completed before or that was rolled back; \<open>setup.rollback\<close> fails
  and changes nothing when it runs on a session that was rolled back. Rollback of a
  completed session is not refused: the handler does not look at the completion flag, so
  it deletes the session as it does for any other, and its result is an error only when
  a compensating call failed.
\<close>

theorem terminal_operations:
  "(getSession sid w = Some r \<longrightarrow>
      complete_handler sid (snd (complete_handler sid w)) =
        (textResult ''Setup already completed.'' True, snd (complete_handler sid w)))
   \<and> complete_handler sid (snd (rollback_handler e sid w)) =
        (textResult (''No active setup session: '' @ sid) True, snd (rollback_handler e sid w))
   \<and> rollback_handler e' sid (snd (rollback_handler e sid w)) =
        (textResult (''No active setup session: '' @ sid) True, snd (rollback_handler e sid w))
   \<and> (getSession sid w = Some r \<and> completed (objs w r) \<longrightarrow>
        getSession sid (snd (rollback_handler e sid w)) = None \<and>
        isError (fst (rollback_handler e sid w)) =
          (failures e (calls w)
             (drop (length (calls w)) (calls (snd (rollback_handler e sid w)))) \<noteq> []))"
proof -
  have a: "complete_handler sid (snd (complete_handler sid w)) =
        (textResult ''Setup already completed.'' True, snd (complete_handler sid w))"
    if "getSession sid w = Some r"
    using that
    by (simp add: complete_handler_def getSession_def ctx_events_emit_def Let_def)
  note gone = rollback_handler_gone[of sid e w]
  have b: "complete_handler sid (snd (rollback_handler e sid w)) =
        (textResult (''No active setup session: '' @ sid) True, snd (rollback_handler e sid w))"
    using gone by (simp add: complete_handler_def)
  have c: "rollback_handler e' sid (snd (rollback_handler e sid w)) =
        (textResult (''No active setup session: '' @ sid) True, snd (rollback_handler e sid w))"
    using gone by (simp add: rollback_handler_def)
  have d: "isError (fst (rollback_handler e sid w)) =
          (failures e (calls w)
             (drop (length (calls w)) (calls (snd (rollback_handler e sid w)))) \<noteq> [])"
    if "getSession sid w = Some r"
  proof -
    from rollback_handler_calls[OF that, of e] obtain new where
      "calls (snd (rollback_handler e sid w)) = calls w @ new"
      "fst (rollback_handler e sid w) =
             (if failures e (calls w) new = []
              then textResult ''Rollback complete. All changes undone.'' False
              else textResult (''Rollback completed with errors:'' @ nl @
                     join nl (failures e (calls w) new)) True)"
      by blast
    then show ?thesis by (simp add: textResult_def)
  qed
  from a b c d gone show ?thesis by blast
qed

theorem terminal_operations_witness:
  "getSession ''s1'' completed_world = Some 0 \<and> completed (objs completed_world 0)
   \<and> complete_handler ''s1'' (snd (complete_handler ''s1'' completed_world)) =
        (textResult ''Setup already completed.'' True, snd (complete_handler ''s1'' completed_world))
   \<and> complete_handler ''s1'' (snd (rollback_handler sample_env ''s1'' completed_world)) =
        (textResult ''No active setup session: s1'' True,
         snd (rollback_handler sample_env ''s1'' completed_world))
   \<and> rollback_handler sample_env ''s1'' (snd (rollback_handler sample_env ''s1'' completed_world)) =
        (textResult ''No active setup session: s1'' True,
         snd (rollback_handler sample_env ''s1'' completed_world))
   \<and> getSession ''s1'' (snd (rollback_handler sample_env ''s1'' completed_world)) = None"
proof -
  have h: "getSession ''s1'' completed_world = Some 0 \<and> completed (objs completed_world 0)"
    by (simp add: getSession_def completed_world_def sample_world_def)
  from h terminal_operations [of "''s1''" completed_world 0 sample_env sample_env]
  show ?thesis by simp
qed

text \<open>
  The claim as stated fails: on a new session \<open>setup.complete\<close> succeeds, and
  \<open>setup.rollback\<close>, run second on the same session, succeeds as well and removes the
  session from the store.
\<close>

theorem rollback_after_complete_counterexample:
  "\<not> isError (fst (complete_handler ''s1'' fresh_world))
   \<and> \<not> isError (fst (rollback_handler sample_env ''s1''
          (snd (complete_handler ''s1'' fresh_world))))
   \<and> getSession ''s1'' (snd (complete_handler ''s1'' fresh_world)) = Some 0
   \<and> getSession ''s1'' (snd (rollback_handler sample_env ''s1''
          (snd (complete_handler ''s1'' fresh_world)))) = None"
  by (simp add: handler_defs sample_defs fresh_world_def)

section \<open>Saving a value and rolling it back\<close>









section \<open>The completion notification is emitted at most once\<close>

lemma step_terminal:
  assumes "store_inv w" and "terminal sid w" and "\<not> begins sid x"
  shows "terminal sid (step e x w) \<and> completions sid (step e x w) = completions sid w"
proof (cases x)
  case (BeginSetup pid schema sid' now)
  with assms show ?thesis
    by (auto simp: terminal_def store_inv_def getSession_def createSession_def completions_def
          Let_def split: option.splits)
next
  case (InstallDependency sid' pid)
  with assms installDependency_frame[of e sid' pid w] show ?thesis
    by (cases "installDependency_handler e sid' pid w")
       (auto simp: terminal_def getSession_def completions_def split: option.splits)
next
  case (SaveConfig sid' key val)
  with assms saveConfig_frame[of e sid' key val w] show ?thesis
    by (cases "saveConfig_handler e sid' key val w")
       (auto simp: terminal_def getSession_def completions_def split: option.splits)
next
  case (Complete sid')
  with assms show ?thesis
    by (auto simp: terminal_def getSession_def completions_def complete_handler_def
          ctx_events_emit_def Let_def split: option.splits)
next
  case (Rollback sid')
  with assms rollback_frame[of e sid' w] show ?thesis
    by (cases "rollback_handler e sid' w")
       (auto simp: terminal_def getSession_def completions_def split: option.splits if_splits)
next
  case Shutdown
  then show ?thesis
    by (simp add: terminal_def getSession_def clearAllSessions_def completions_def)
qed

lemma step_active:
  assumes "store_inv w" and "\<not> begins sid x"
  shows "completions sid (step e x w) = completions sid w \<or>
         (completions sid (step e x w) = completions sid w + 1 \<and> terminal sid (step e x w))"
proof (cases x)
  case (BeginSetup pid schema sid' now)
  then show ?thesis by (simp add: createSession_def completions_def Let_def)
next
  case (InstallDependency sid' pid)
  with installDependency_frame[of e sid' pid w] show ?thesis
    by (cases "installDependency_handler e sid' pid w") (simp add: completions_def)
next
  case (SaveConfig sid' key val)
  with saveConfig_frame[of e sid' key val w] show ?thesis
    by (cases "saveConfig_handler e sid' key val w") (simp add: completions_def)
next
  case (Complete sid')
  then show ?thesis
    by (auto simp: terminal_def getSession_def completions_def complete_handler_def
          ctx_events_emit_def Let_def split: option.splits)
next
  case (Rollback sid')
  with rollback_frame[of e sid' w] show ?thesis
    by (cases "rollback_handler e sid' w") (simp add: completions_def)
next
  case Shutdown
  then show ?thesis by (simp add: clearAllSessions_def completions_def)
qed

lemma run_terminal:
  "store_inv w \<Longrightarrow> terminal sid w \<Longrightarrow> \<forall>x\<in>set ops. \<not> begins sid x \<Longrightarrow>
     completions sid (run e ops w) = completions sid w"
proof (induction ops arbitrary: w)
  case Nil
  then show ?case by simp
next
  case (Cons x ops)
  from Cons.prems have nb: "\<not> begins sid x" by simp
  from step_terminal[OF Cons.prems(1,2) nb, of e] store_inv_step[OF Cons.prems(1), of e x]
    Cons.IH[of "step e x w"] Cons.prems(3)
  show ?case by simp
qed

lemma run_at_most_once:
  "store_inv w \<Longrightarrow> \<forall>x\<in>set ops. \<not> begins sid x \<Longrightarrow>
     completions sid (run e ops w) \<le> completions sid w + 1"
proof (induction ops arbitrary: w)
  case Nil
  then show ?case by simp
next
  case (Cons x ops)
  from Cons.prems have nb: "\<not> begins sid x" and rest: "\<forall>x\<in>set ops. \<not> begins sid x"
    by simp_all
  note inv = store_inv_step[OF Cons.prems(1), of e x]
  from step_active[OF Cons.prems(1) nb, of e] show ?case
  proof
    assume "completions sid (step e x w) = completions sid w"
    with Cons.IH[OF inv rest] show ?thesis by simp
  next
    assume "completions sid (step e x w) = completions sid w + 1 \<and> terminal sid (step e x w)"
    with run_terminal[OF inv _ rest, of e] show ?thesis by simp
  qed
qed

text \<open>
  Claim C6. \<open>setup.complete\<close> on a session whose \<open>completed\<close> flag is already true
  returns the error "Setup already completed." and leaves the whole world as it was, so
  no notification is emitted. As a consequence, over any sequence of operations that
  does not begin a new session under the same id, at most one completion notification
  is emitted for a session id, from any well-formed store.
\<close>

theorem complete_at_most_once:
  "(getSession sid w = Some r \<and> completed (objs w r) \<longrightarrow>
      complete_handler sid w = (textResult ''Setup already completed.'' True, w))
   \<and> (store_inv w \<and> (\<forall>x\<in>set ops. \<not> begins sid x) \<longrightarrow>
        completions sid (run e ops w) \<le> completions sid w + 1)"
  using run_at_most_once[of w ops sid e] by (simp add: complete_handler_def)

text \<open>
  A completed session, and a new session that is completed twice, rolled back and
  completed once more.
\<close>

theorem complete_at_most_once_witness:
  "getSession ''s1'' completed_world = Some 0 \<and> completed (objs completed_world 0)
   \<and> complete_handler ''s1'' completed_world =
       (textResult ''Setup already completed.'' True, completed_world)
   \<and> store_inv fresh_world
   \<and> list_all (\<lambda>x. \<not> begins ''s1'' x)
        [Complete ''s1'', Complete ''s1'', Rollback ''s1'', Complete ''s1'']
   \<and> completions ''s1''
        (run sample_env [Complete ''s1'', Complete ''s1'', Rollback ''s1'', Complete ''s1'']
           fresh_world) \<le> completions ''s1'' fresh_world + 1"
proof -
  have h1: "getSession ''s1'' completed_world = Some 0 \<and> completed (objs completed_world 0)"
    by (simp add: getSession_def completed_world_def sample_world_def)
  have h2: "store_inv fresh_world
     \<and> (\<forall>x\<in>set [Complete ''s1'', Complete ''s1'', Rollback ''s1'', Complete ''s1''].
         \<not> begins ''s1'' x)"
    by (simp add: store_inv_def fresh_world_def sample_world_def)
  have h3: "list_all (\<lambda>x. \<not> begins ''s1'' x)
        [Complete ''s1'', Complete ''s1'', Rollback ''s1'', Complete ''s1'']"
    by simp
  from h1 h2 h3
    complete_at_most_once [of "''s1''" completed_world 0]
    complete_at_most_once [of "''s1''" fresh_world 0
      "[Complete ''s1'', Complete ''s1'', Rollback ''s1'', Complete ''s1'']" sample_env]
  show ?thesis by blast
qed

section \<open>The field validator of setup.saveConfig\<close>

lemma find_field:
  "field \<in> set fs \<Longrightarrow> distinct (map name fs) \<Longrightarrow>
     find (\<lambda>f. name f = name field) fs = Some field"
  by (induction fs) (auto simp: image_iff)

text \<open>
  Claim C7. In a session whose schema has unique field names (section 3 of the
  specification), for every field declared required, \<open>setup.saveConfig\<close> with the value
  \<open>null\<close>, \<open>undefined\<close> or the empty string returns an error whose text contains
  "required", and leaves the world as it was: no mutation is added to the ledger.
\<close>

theorem saveConfig_required_empty:
  assumes "getSession sid w = Some r"
      and "field \<in> set (fields_list (configSchema (objs w r)))"
      and "distinct (map name (fields_list (configSchema (objs w r))))"
      and "required field = Some True"
      and "val = JNull \<or> val = JUndefined \<or> val = JStr []"
  shows "saveConfig_handler e sid (name field) val w =
           (Inr (textResult (''Field '' @ dq @ name field @ dq @
                   '' is required and cannot be empty.'') True), w)
       \<and> sublist ''required'' (''Field '' @ dq @ name field @ dq @
                   '' is required and cannot be empty.'')
       \<and> mutations (objs (snd (saveConfig_handler e sid (name field) val w)) r) =
           mutations (objs w r)"
proof -
  have "sublist ''required'' (''Field '' @ dq @ name field @ dq @
                   '' is required and cannot be empty.'')"
    unfolding sublist_def
    by (rule exI[of _ "''Field '' @ dq @ name field @ dq @ '' is ''"],
        rule exI[of _ "'' and cannot be empty.''"]) simp
  with assms find_field[OF assms(2,3)] show ?thesis
    by (simp add: saveConfig_handler_def Let_def)
qed

theorem saveConfig_required_empty_witness:
  "getSession ''s1'' fresh_world = Some 0
   \<and> token_field \<in> set (fields_list (configSchema (objs fresh_world 0)))
   \<and> distinct (map name (fields_list (configSchema (objs fresh_world 0))))
   \<and> required token_field = Some True
   \<and> saveConfig_handler sample_env ''s1'' ''token'' (JStr []) fresh_world =
       (Inr (textResult (''Field '' @ dq @ ''token'' @ dq @
               '' is required and cannot be empty.'') True), fresh_world)
   \<and> sublist ''required'' (''Field '' @ dq @ ''token'' @ dq @
               '' is required and cannot be empty.'')
   \<and> mutations (objs (snd (saveConfig_handler sample_env ''s1'' ''token'' (JStr []) fresh_world)) 0)
       = []"
proof -
  have h1: "getSession ''s1'' fresh_world = Some 0"
    by (simp add: getSession_def fresh_world_def sample_world_def)
  have h2: "token_field \<in> set (fields_list (configSchema (objs fresh_world 0)))"
    by (simp add: fresh_world_def sample_world_def sample_schema_def)
  have h3: "distinct (map name (fields_list (configSchema (objs fresh_world 0))))"
    by (simp add: fresh_world_def sample_defs)
  have h4: "required token_field = Some True"
    by (simp add: token_field_def)
  have h5: "JStr [] = JNull \<or> JStr [] = JUndefined \<or> JStr [] = JStr []"
    by simp
  have n: "name token_field = ''token''" "mutations (objs fresh_world 0) = []"
    by (simp_all add: token_field_def fresh_world_def sample_world_def)
  from h1 h2 h3 h4 saveConfig_required_empty [OF h1 h2 h3 h4 h5, of sample_env]
  show ?thesis by (simp add: n)
qed

text \<open>
  Claim C8, as amended. Take a field of a schema with unique names whose declared
  pattern is a regular expression that compiles, and a value that the required check
  lets through (the field is not required, or the value is none of \<open>null\<close>,
  \<open>undefined\<close> and the empty string). If the value is a string that fails the match
  (the pattern being non-empty; an empty pattern is never applied), \<open>setup.saveConfig\<close>
  returns an error and changes nothing; the text is the field's \<open>patternError\<close> verbatim
  when one is declared, else a generic message that contains the pattern. If the value
  is not a string the pattern is not applied and the handler goes on to persist the
  value.
\<close>

theorem saveConfig_pattern:
  assumes "getSession sid w = Some r"
      and "field \<in> set (fields_list (configSchema (objs w r)))"
      and "distinct (map name (fields_list (configSchema (objs w r))))"
      and "pattern field = Some p"
      and "RegExp e p = Inr regex_test"
      and "\<not> (required field = Some True \<and> (val = JNull \<or> val = JUndefined \<or> val = JStr []))"
  shows "(\<forall>s. val = JStr s \<and> \<not> regex_test s \<and> p \<noteq> [] \<longrightarrow>
            saveConfig_handler e sid (name field) val w =
              (Inr (textResult
                 (case patternError field of
                    Some msg \<Rightarrow> msg
                  | None \<Rightarrow> ''Value for '' @ dq @ name field @ dq @
                             '' does not match pattern: '' @ p) True), w))
       \<and> sublist p (''Value for '' @ dq @ name field @ dq @ '' does not match pattern: '' @ p)
       \<and> ((\<forall>s. val \<noteq> JStr s) \<longrightarrow>
            saveConfig_handler e sid (name field) val w =
              (case persist_value e r (name field) val w of (res, w') \<Rightarrow> (Inr res, w')))"
proof -
  note f = find_field[OF assms(2,3)]
  have a: "saveConfig_handler e sid (name field) val w =
              (Inr (textResult
                 (case patternError field of
                    Some msg \<Rightarrow> msg
                  | None \<Rightarrow> ''Value for '' @ dq @ name field @ dq @
                             '' does not match pattern: '' @ p) True), w)"
    if "val = JStr s" and "\<not> regex_test s" and "p \<noteq> []" for s
    using assms(1,4,5,6) f that
    by (auto simp: saveConfig_handler_def check_pattern_def Let_def)
  have b: "sublist p (''Value for '' @ dq @ name field @ dq @ '' does not match pattern: '' @ p)"
    unfolding sublist_def
    by (rule exI[of _ "''Value for '' @ dq @ name field @ dq @ '' does not match pattern: ''"],
        rule exI[of _ "[]"]) simp
  have c: "saveConfig_handler e sid (name field) val w =
              (case persist_value e r (name field) val w of (res, w') \<Rightarrow> (Inr res, w'))"
    if "\<forall>s. val \<noteq> JStr s"
    using assms(1,4,5,6) f that
    by (cases val) (auto simp: saveConfig_handler_def check_pattern_def Let_def)
  from a b c show ?thesis by blast
qed

text \<open>
  The field \<open>id\<close> with the pattern \<open>^[0-9]+$\<close> and the message "Must be numeric": the
  string \<open>abc\<close> is rejected with that message, the number 7 goes on to be persisted.
\<close>

theorem saveConfig_pattern_witness:
  "getSession ''s1'' fresh_world = Some 0
   \<and> id_field \<in> set (fields_list (configSchema (objs fresh_world 0)))
   \<and> distinct (map name (fields_list (configSchema (objs fresh_world 0))))
   \<and> pattern id_field = Some ''^[0-9]+$''
   \<and> RegExp sample_env ''^[0-9]+$'' = Inr digits_only
   \<and> \<not> digits_only ''abc''
   \<and> saveConfig_handler sample_env ''s1'' ''id'' (JStr ''abc'') fresh_world =
       (Inr (textResult ''Must be numeric'' True), fresh_world)
   \<and> saveConfig_handler sample_env ''s1'' ''id'' (JNum 7) fresh_world =
       (case persist_value sample_env 0 ''id'' (JNum 7) fresh_world of
          (res, w') \<Rightarrow> (Inr res, w'))"
proof -
  have h1: "getSession ''s1'' fresh_world = Some 0"
    by (simp add: getSession_def fresh_world_def sample_world_def)
  have h2: "id_field \<in> set (fields_list (configSchema (objs fresh_world 0)))"
    by (simp add: fresh_world_def sample_world_def sample_schema_def)
  have h3: "distinct (map name (fields_list (configSchema (objs fresh_world 0))))"
    by (simp add: fresh_world_def sample_defs)
  have h4: "pattern id_field = Some ''^[0-9]+$''"
    by (simp add: id_field_def)
  have h5: "RegExp sample_env ''^[0-9]+$'' = Inr digits_only"
    by (simp add: sample_env_def)
  have h6: "\<not> (required id_field = Some True \<and>
               (JStr ''abc'' = JNull \<or> JStr ''abc'' = JUndefined \<or> JStr ''abc'' = JStr []))"
    by simp
  have h7: "\<not> (required id_field = Some True \<and>
               (JNum 7 = JNull \<or> JNum 7 = JUndefined \<or> JNum 7 = JStr []))"
    by simp
  have n: "name id_field = ''id''" "patternError id_field = Some ''Must be numeric''"
    by (simp_all add: id_field_def)
  have f: "\<not> digits_only ''abc''" by (simp add: digits_only_def)
  from h1 h2 h3 h4 h5 f
    saveConfig_pattern [OF h1 h2 h3 h4 h5 h6]
    saveConfig_pattern [OF h1 h2 h3 h4 h5 h7]
  show ?thesis by (simp add: n)
qed

text \<open>
  The claim as stated fails in two places. The field \<open>id\<close> is required and has the
  pattern \<open>^[0-9]+$\<close> with the message "Must be numeric"; the empty string is a string
  that fails the match, yet the handler answers with the message of the required check,
  which runs first. The field \<open>port\<close> has the pattern \<open>(\<close>, which is no regular
  expression; for the number 8080, which is not a string, the handler does not skip the
  pattern: the constructor throws before the type of the value is looked at, and the
  handler's promise rejects.
\<close>

theorem saveConfig_pattern_counterexample:
  "pattern id_field = Some ''^[0-9]+$'' \<and> patternError id_field = Some ''Must be numeric''
   \<and> RegExp sample_env ''^[0-9]+$'' = Inr digits_only \<and> \<not> digits_only []
   \<and> fst (saveConfig_handler sample_env ''s1'' ''id'' (JStr []) fresh_world) =
       Inr (textResult (''Field '' @ dq @ ''id'' @ dq @ '' is required and cannot be empty.'') True)
   \<and> fst (saveConfig_handler sample_env ''s1'' ''id'' (JStr []) fresh_world) \<noteq>
       Inr (textResult ''Must be numeric'' True)
   \<and> pattern port_field = Some ''(''
   \<and> saveConfig_handler sample_env ''s1'' ''port'' (JNum 8080) fresh_world =
       (Inl ''SyntaxError: Invalid regular expression'', fresh_world)"
  by (simp add: handler_defs sample_defs fresh_world_def dq_def digits_only_def)

section \<open>What a successful completion changes\<close>

text \<open>
  Claim C9. In a well-formed store, \<open>setup.complete\<close> on an existing session that is not
  yet completed succeeds and changes, of the session object, the \<open>completed\<close> flag only:
  its \<open>sessionId\<close>, \<open>pluginId\<close>, \<open>configSchema\<close>, \<open>mutations\<close> and
  \<open>collectedValues\<close> are as before. The store maps every id to what it mapped it to
  before, so the session is still present, and the object of every other session is
  unchanged. The host configuration and the log of external calls are unchanged too;
  the one effect besides the flag is the completion notification, which carries the
  plugin id, the session id and the names of the collected values.
\<close>

theorem complete_frame:
  assumes "store_inv w" and "getSession sid w = Some r" and "\<not> completed (objs w r)"
  shows "\<not> isError (fst (complete_handler sid w))
       \<and> objs (snd (complete_handler sid w)) r = (objs w r)\<lparr>completed := True\<rparr>
       \<and> sessionId (objs (snd (complete_handler sid w)) r) = sessionId (objs w r)
       \<and> pluginId (objs (snd (complete_handler sid w)) r) = pluginId (objs w r)
       \<and> configSchema (objs (snd (complete_handler sid w)) r) = configSchema (objs w r)
       \<and> mutations (objs (snd (complete_handler sid w)) r) = mutations (objs w r)
       \<and> collectedValues (objs (snd (complete_handler sid w)) r) = collectedValues (objs w r)
       \<and> getSession sid (snd (complete_handler sid w)) = Some r
       \<and> (\<forall>sid'. getSession sid' (snd (complete_handler sid w)) = getSession sid' w)
       \<and> (\<forall>sid' r'. sid' \<noteq> sid \<and> getSession sid' w = Some r' \<longrightarrow>
            objs (snd (complete_handler sid w)) r' = objs w r')
       \<and> config (snd (complete_handler sid w)) = config w
       \<and> calls (snd (complete_handler sid w)) = calls w
       \<and> emitted (snd (complete_handler sid w)) =
           emitted w @ [\<lparr>ev_name = ''setup:complete'', ev_pluginId = pluginId (objs w r),
                         ev_sessionId = sid,
                         ev_configKeys = map fst (collectedValues (objs w r))\<rparr>]"
  using assms
  by (auto simp: complete_handler_def store_inv_def getSession_def ctx_events_emit_def
        textResult_def Let_def)

text \<open>Two sessions side by side: completing \<open>s1\<close> leaves the object of \<open>s2\<close> alone.\<close>

theorem complete_frame_witness:
  "store_inv sample_world2 \<and> getSession ''s1'' sample_world2 = Some 0
   \<and> \<not> completed (objs sample_world2 0)
   \<and> \<not> isError (fst (complete_handler ''s1'' sample_world2))
   \<and> objs (snd (complete_handler ''s1'' sample_world2)) 0 =
       (objs sample_world2 0)\<lparr>completed := True\<rparr>
   \<and> getSession ''s1'' (snd (complete_handler ''s1'' sample_world2)) = Some 0
   \<and> getSession ''s2'' sample_world2 = Some 1
   \<and> objs (snd (complete_handler ''s1'' sample_world2)) 1 = objs sample_world2 1"
proof -
  have h1: "store_inv sample_world2"
    by (simp add: store_inv_def sample_world2_def)
  have h2: "getSession ''s1'' sample_world2 = Some 0"
    by (simp add: getSession_def sample_world2_def)
  have h3: "\<not> completed (objs sample_world2 0)"
    by (simp add: sample_world2_def)
  have h4: "''s2'' \<noteq> ''s1'' \<and> getSession ''s2'' sample_world2 = Some 1"
    by (simp add: getSession_def sample_world2_def)
  note c = complete_frame [OF h1 h2 h3]
  from c have a: "\<not> isError (fst (complete_handler ''s1'' sample_world2))"
    by (elim conjE)
  from c have b: "objs (snd (complete_handler ''s1'' sample_world2)) 0 =
       (objs sample_world2 0)\<lparr>completed := True\<rparr>"
    by (elim conjE)
  from c have d: "getSession ''s1'' (snd (complete_handler ''s1'' sample_world2)) = Some 0"
    by (elim conjE)
  from c have q: "\<forall>sid' r'. sid' \<noteq> ''s1'' \<and> getSession sid' sample_world2 = Some r' \<longrightarrow>
            objs (snd (complete_handler ''s1'' sample_world2)) r' = objs sample_world2 r'"
    by (elim conjE)
  from q [rule_format, OF h4]
  have o: "objs (snd (complete_handler ''s1'' sample_world2)) 1 = objs sample_world2 1" .
  from h1 h2 h3 h4 a b d o show ?thesis by (intro conjI) simp_all
qed

section \<open>When an installation is recorded\<close>

text \<open>
  Claim C10, as amended. For an existing session, \<open>setup.installDependency\<close> appends an
  \<open>installDependency\<close> mutation to the ledger, and reports success, exactly when the
  install call resolves to an ok response whose parsed body has a truthy \<open>success\<close>:
  \<open>true\<close>, but also a number other than zero, a non-empty string or an object. In
  every other case (a rejected call, a body that does not parse or is \<open>null\<close>, a
  response that is not ok, an ok response whose body has no \<open>success\<close> or a falsy
  one) it reports an error and the ledger is unchanged.
\<close>

theorem installDependency_records_iff:
  assumes "getSession sid w = Some r"
  shows "(if install_succeeded
            (fetch_reply e (calls w @ [FetchCall ''http://localhost:7437/plugins/install'' pid]))
          then \<not> isError (fst (installDependency_handler e sid pid w)) \<and>
               mutations (objs (snd (installDependency_handler e sid pid w)) r) =
                 mutations (objs w r) @ [InstallDependencyM pid]
          else isError (fst (installDependency_handler e sid pid w)) \<and>
               mutations (objs (snd (installDependency_handler e sid pid w)) r) =
                 mutations (objs w r))"
  using assms
  by (auto simp: installDependency_handler_def install_succeeded_def fetch_def textResult_def
        Let_def split: sum.splits option.splits)

text \<open>
  The plugin \<open>voice\<close> is answered with 200 and \<open>{success: true}\<close> and is recorded; the
  plugin \<open>p2\<close> is answered with 200 and \<open>{}\<close> and is not.
\<close>

theorem installDependency_records_iff_witness:
  "getSession ''s1'' fresh_world = Some 0
   \<and> \<not> isError (fst (installDependency_handler sample_env ''s1'' ''voice'' fresh_world))
   \<and> mutations (objs (snd (installDependency_handler sample_env ''s1'' ''voice'' fresh_world)) 0) =
       [InstallDependencyM ''voice'']
   \<and> isError (fst (installDependency_handler sample_env ''s1'' ''p2'' fresh_world))
   \<and> mutations (objs (snd (installDependency_handler sample_env ''s1'' ''p2'' fresh_world)) 0) = []"
proof -
  have h: "getSession ''s1'' fresh_world = Some 0"
    by (simp add: getSession_def fresh_world_def sample_world_def)
  have a: "install_succeeded (fetch_reply sample_env
             (calls fresh_world @ [FetchCall ''http://localhost:7437/plugins/install'' ''voice'']))"
    by (simp add: install_succeeded_def sample_env_def)
  have b: "\<not> install_succeeded (fetch_reply sample_env
             (calls fresh_world @ [FetchCall ''http://localhost:7437/plugins/install'' ''p2'']))"
    by (simp add: install_succeeded_def sample_env_def)
  have n: "mutations (objs fresh_world 0) = []"
    by (simp add: fresh_world_def sample_world_def)
  from h a b n
    installDependency_records_iff [OF h, of sample_env "''voice''"]
    installDependency_records_iff [OF h, of sample_env "''p2''"]
  show ?thesis by simp
qed

text \<open>
  The claim as stated fails on a body whose \<open>success\<close> is truthy without being
  \<open>true\<close>: the install of \<open>p3\<close> is answered with HTTP 200 and \<open>{success: 1}\<close>, a
  body that lacks \<open>success: true\<close>, and the handler reports success and records the
  mutation.
\<close>

theorem installDependency_records_iff_counterexample:
  "fetch_reply sample_env [FetchCall ''http://localhost:7437/plugins/install'' ''p3''] =
     Inr \<lparr>ok = True, status = 200,
          json = Inr (Some \<lparr>success = JNum 1, error = JUndefined\<rparr>)\<rparr>
   \<and> JNum 1 \<noteq> JBool True
   \<and> \<not> isError (fst (installDependency_handler sample_env ''s1'' ''p3'' fresh_world))
   \<and> mutations (objs (snd (installDependency_handler sample_env ''s1'' ''p3'' fresh_world)) 0) =
       [InstallDependencyM ''p3'']"
  by (simp add: handler_defs sample_defs fresh_world_def)

end
